theory Spec2Isabelle
  imports Main "HOL-Library.AList"
begin

section \<open>Python values, errors and strings\<close>

text \<open>
  The decoded JSON bodies and the values stored in request parameter
  dictionaries.  Floats do not occur in any value the code builds and are left
  out.  A dictionary whose keys are all \<open>str\<close> is an association list in
  insertion order, as a Python \<open>dict\<close> is.  Strings are byte strings (UTF-8).
\<close>

datatype pyval =
    PNone
  | PBool bool
  | PInt int
  | PStr string
  | PList "pyval list"
  | PDict "(string \<times> pyval) list"

type_synonym pydict = "(string \<times> pyval) list"

text \<open>
  The exceptions the code can raise.  \<open>TransportIOError\<close> stands for every
  exception raised inside \<open>session.get\<close> or \<open>resp.json()\<close>.
\<close>

datatype error =
    InvalidTransportType
  | RuntimeError string
  | KeyError
  | IndexError
  | TypeError
  | AttributeError
  | TransportIOError

text \<open>A subscript: \<open>d["name"]\<close> or \<open>d[0]\<close>.\<close>

datatype pykey = KStr string | KInt int


section \<open>Strings\<close>

text \<open>\<open>s.replace(a, b)\<close> for one-character \<open>a\<close> and \<open>b\<close>.\<close>

definition py_replace :: "char \<Rightarrow> char \<Rightarrow> string \<Rightarrow> string" where
  "py_replace a b s = map (\<lambda>c. if c = a then b else c) s"

text \<open>\<open>sep.join(xs)\<close>.\<close>

fun py_join :: "string \<Rightarrow> string list \<Rightarrow> string" where
  "py_join sep [] = []"
| "py_join sep [x] = x"
| "py_join sep (x # y # ys) = x @ sep @ py_join sep (y # ys)"

text \<open>\<open>s[:-3]\<close>: all but the last three characters, empty when there are fewer.\<close>

definition drop_last3 :: "string \<Rightarrow> string" where
  "drop_last3 s = take (length s - 3) s"

text \<open>Decimal digits of a number: \<open>str(n)\<close>, and \<open>"%0wd" % n\<close> for \<open>n \<ge> 0\<close>.\<close>

definition digit_char :: "nat \<Rightarrow> char" where
  "digit_char n = ''0123456789'' ! n"

function str_of_nat :: "nat \<Rightarrow> string" where
  "str_of_nat n =
     (if n < 10 then [digit_char n] else str_of_nat (n div 10) @ [digit_char (n mod 10)])"
  by pat_completeness auto
termination
  by (relation "measure id") auto

declare str_of_nat.simps [simp del]

definition str_of_int :: "int \<Rightarrow> string" where
  "str_of_int i = (if i < 0 then CHR ''-'' # str_of_nat (nat (- i)) else str_of_nat (nat i))"

definition zero_pad :: "nat \<Rightarrow> nat \<Rightarrow> string" where
  "zero_pad w n = replicate (w - length (str_of_nat n)) CHR ''0'' @ str_of_nat n"

section \<open>Timestamps\<close>

text \<open>
  A naive \<open>datetime\<close> (no \<open>tzinfo\<close>).  \<open>isoformat()\<close> prints
  \<open>YYYY-MM-DDTHH:MM:SS\<close> and adds \<open>.ffffff\<close> only when the microsecond field is
  not zero.
\<close>

record datetime =
  year :: nat
  month :: nat
  day :: nat
  hour :: nat
  minute :: nat
  second :: nat
  microsecond :: nat

definition isoformat :: "datetime \<Rightarrow> string" where
  "isoformat d =
     zero_pad 4 (year d) @ ''-'' @ zero_pad 2 (month d) @ ''-'' @ zero_pad 2 (day d) @ ''T''
     @ zero_pad 2 (hour d) @ '':'' @ zero_pad 2 (minute d) @ '':'' @ zero_pad 2 (second d)
     @ (if microsecond d = 0 then [] else ''.'' @ zero_pad 6 (microsecond d))"

text \<open>
  What the specification asks of the posts fetcher, in its words: the ISO-8601
  form truncated to millisecond precision (\<open>isoformat(timespec='milliseconds')\<close>).
\<close>

definition iso_millis_spec :: "datetime \<Rightarrow> string" where
  "iso_millis_spec d =
     zero_pad 4 (year d) @ ''-'' @ zero_pad 2 (month d) @ ''-'' @ zero_pad 2 (day d) @ ''T''
     @ zero_pad 2 (hour d) @ '':'' @ zero_pad 2 (minute d) @ '':'' @ zero_pad 2 (second d)
     @ ''.'' @ zero_pad 3 (microsecond d div 1000)"

section \<open>Dictionaries and subscripts\<close>

text \<open>
  \<open>d[k] = v\<close>: an existing key keeps its place and takes the new value, a new key
  goes to the end.
\<close>

definition setitem :: "string \<Rightarrow> pyval \<Rightarrow> pydict \<Rightarrow> pydict" where
  "setitem k v d = AList.update k v d"

text \<open>\<open>{**d, **items}\<close>: the items stored one after the other.\<close>

definition dict_merge :: "pydict \<Rightarrow> pydict \<Rightarrow> pydict" where
  "dict_merge d items = foldl (\<lambda>acc (k, v). setitem k v acc) d items"

text \<open>
  \<open>xs[i]\<close> on a sequence: an index from \<open>-len\<close> up to \<open>-1\<close> counts from the end,
  one from \<open>0\<close> up to \<open>len - 1\<close> from the start, any other is out of range.
\<close>

definition py_index :: "'a list \<Rightarrow> int \<Rightarrow> 'a option" where
  "py_index xs i =
     (if - int (length xs) \<le> i \<and> i < 0 then Some (xs ! nat (int (length xs) + i))
      else if 0 \<le> i \<and> i < int (length xs) then Some (xs ! nat i)
      else None)"

text \<open>
  \<open>v[k]\<close>.  A \<open>str\<close>-keyed dictionary has no integer key, so an integer subscript
  raises \<open>KeyError\<close>; a list or a string takes integers only; nothing else can
  be subscripted.
\<close>

definition getitem :: "pyval \<Rightarrow> pykey \<Rightarrow> error + pyval" where
  "getitem v k =
     (case v of
        PDict d \<Rightarrow>
          (case k of
             KStr s \<Rightarrow> (case map_of d s of None \<Rightarrow> Inl KeyError | Some x \<Rightarrow> Inr x)
           | KInt i \<Rightarrow> Inl KeyError)
      | PList xs \<Rightarrow>
          (case k of
             KInt i \<Rightarrow> (case py_index xs i of None \<Rightarrow> Inl IndexError | Some x \<Rightarrow> Inr x)
           | KStr s \<Rightarrow> Inl TypeError)
      | PStr s \<Rightarrow>
          (case k of
             KInt i \<Rightarrow> (case py_index s i of None \<Rightarrow> Inl IndexError | Some c \<Rightarrow> Inr (PStr [c]))
           | KStr t \<Rightarrow> Inl TypeError)
      | _ \<Rightarrow> Inl TypeError)"

text \<open>The elements \<open>list.extend\<close> takes from its argument.\<close>

definition py_iter :: "pyval \<Rightarrow> error + pyval list" where
  "py_iter v =
     (case v of
        PList xs \<Rightarrow> Inr xs
      | PStr s \<Rightarrow> Inr (map (\<lambda>c. PStr [c]) s)
      | PDict d \<Rightarrow> Inr (map (\<lambda>kv. PStr (fst kv)) d)
      | _ \<Rightarrow> Inl TypeError)"

text \<open>Replacing the value under a key of a dictionary object, in place.\<close>

definition store :: "pyval \<Rightarrow> string \<Rightarrow> pyval \<Rightarrow> pyval" where
  "store v k x = (case v of PDict d \<Rightarrow> PDict (setitem k x d) | _ \<Rightarrow> v)"

text \<open>
  Truth values of the optional arguments: \<open>None\<close>, \<open>0\<close> and the empty string or
  list are false.  The result is the argument's value when it is true.  A
  \<open>datetime\<close> is always true, so for a timestamp the test is on \<open>None\<close> alone.
\<close>

definition truthy_int :: "int option \<Rightarrow> int option" where
  "truthy_int x = (case x of None \<Rightarrow> None | Some n \<Rightarrow> if n \<noteq> 0 then Some n else None)"

definition truthy_seq :: "'a list option \<Rightarrow> 'a list option" where
  "truthy_seq x = (case x of None \<Rightarrow> None | Some xs \<Rightarrow> if xs \<noteq> [] then Some xs else None)"

text \<open>
  A one-armed \<open>if x:\<close> whose body updates the dictionary: the body is applied,
  to the value tested, when that is true, and the dictionary is left as it is
  otherwise.
\<close>

definition if_stmt :: "'a option \<Rightarrow> ('a \<Rightarrow> pydict \<Rightarrow> pydict) \<Rightarrow> pydict \<Rightarrow> pydict" where
  "if_stmt c body params = (case c of None \<Rightarrow> params | Some v \<Rightarrow> body v params)"

section \<open>The HTTP session\<close>

text \<open>
  \<open>session.get(url, params=params)\<close> followed by \<open>resp.json()\<close>.  The remote side
  is a function of the requests sent so far and of the request; \<open>None\<close> is a
  failed request or an undecodable body.  The state threaded through the code is
  the list of requests sent, oldest first.
\<close>

record request =
  req_url :: string
  req_params :: "pydict option"

type_synonym net = "request list \<Rightarrow> request \<Rightarrow> pyval option"

type_synonym 'a io = "request list \<Rightarrow> (error + 'a) \<times> request list"

definition session_get :: "net \<Rightarrow> request \<Rightarrow> pyval io" where
  "session_get net r sent =
     ((case net sent r of None \<Rightarrow> Inl TransportIOError | Some body \<Rightarrow> Inr body), sent @ [r])"

text \<open>
  \<open>asyncio.gather(*tasks)\<close>: every task is started, in the order of the list,
  the results come back in that order, and a task that raised makes \<open>gather\<close>
  raise.  The tasks run here can only fail with \<open>TransportIOError\<close>, so which
  of two failures is reported makes no difference.
\<close>

fun gather :: "pyval io list \<Rightarrow> pyval list io" where
  "gather [] sent = (Inr [], sent)"
| "gather (t # ts) sent =
     (let (r, sent1) = t sent; (rs, sent2) = gather ts sent1
      in (case r of
            Inl e \<Rightarrow> (Inl e, sent2)
          | Inr v \<Rightarrow> (case rs of Inl e \<Rightarrow> (Inl e, sent2) | Inr vs \<Rightarrow> (Inr (v # vs), sent2))))"

section \<open>The wiki and its transports\<close>

text \<open>
  Modelled from the spec: the transport objects of the \<open>transports\<close> package,
  which is not among the sources.  A transport holds a reference to its owning
  wiki and to the shared session, both not owned, and its target url; the
  references are kept as the wiki's id.
\<close>

record transport =
  t_wiki :: string
  t_url :: string

text \<open>
  \<open>Wiki.__init__\<close>: the base url may be \<open>None\<close>; \<open>wiki_id\<close> is the text the
  id formats to.
\<close>

record wiki =
  url :: "string option"
  wiki_id :: string
  last_check_time :: "datetime option"
  transports :: "transport list"

text \<open>
  Modelled from the spec: the constructor
  \<open>discord.DiscordTransport(wiki=self, url=url, session=self.session)\<close>, which
  keeps its arguments and does not fail.
\<close>

definition DiscordTransport :: "wiki \<Rightarrow> string \<Rightarrow> transport" where
  "DiscordTransport w target = \<lparr>t_wiki = wiki_id w, t_url = target\<rparr>"

text \<open>
  \<open>add_transport\<close> mutates \<open>self.transports\<close> or raises; the model returns the
  outcome together with the wiki as it is after the call, also when it raises.
\<close>

definition add_transport :: "wiki \<Rightarrow> string \<Rightarrow> string \<Rightarrow> (error + unit) \<times> wiki" where
  "add_transport w type target =
     (if type = ''discord''
      then (Inr (), w\<lparr>transports := transports w @ [DiscordTransport w target]\<rparr>)
      else (Inl InvalidTransportType, w))"

section \<open>Page URLs\<close>

text \<open>
  \<open>urllib.parse.quote\<close>, \<open>quote_plus\<close> and \<open>urlencode\<close> of the standard library, on
  the UTF-8 bytes of the text: letters, digits and \<open>_.-~\<close> are always kept, the
  bytes of \<open>safe\<close> are kept, every other byte becomes \<open>%XX\<close> in upper-case hex.
\<close>

definition always_safe :: "string" where
  "always_safe =
     ''ABCDEFGHIJKLMNOPQRSTUVWXYZ'' @ ''abcdefghijklmnopqrstuvwxyz'' @ ''0123456789'' @ ''_.-~''"

definition hex_digit :: "nat \<Rightarrow> char" where
  "hex_digit n = ''0123456789ABCDEF'' ! n"

definition byte_quoter :: "string \<Rightarrow> char \<Rightarrow> string" where
  "byte_quoter safe b =
     (if b \<in> set (always_safe @ safe) then [b]
      else [CHR ''%'', hex_digit ((of_char b :: nat) div 16), hex_digit ((of_char b :: nat) mod 16)])"

definition quote :: "string \<Rightarrow> string \<Rightarrow> string" where
  "quote s safe = concat (map (byte_quoter safe) s)"

definition quote_plus :: "string \<Rightarrow> string" where
  "quote_plus s =
     (if CHR '' '' \<notin> set s then quote s []
      else py_replace CHR '' '' CHR ''+'' (quote s '' ''))"

text \<open>The keyword values given to \<open>url_to\<close>: text or integers, printed by \<open>str\<close>.\<close>

datatype query_value = QStr string | QInt int

definition query_str :: "query_value \<Rightarrow> string" where
  "query_str v = (case v of QStr s \<Rightarrow> s | QInt i \<Rightarrow> str_of_int i)"

definition urlencode :: "(string \<times> query_value) list \<Rightarrow> string" where
  "urlencode query =
     py_join ''&'' (map (\<lambda>kv. quote_plus (fst kv) @ ''='' @ quote_plus (query_str (snd kv))) query)"

text \<open>\<open>f"{self.url}"\<close>: \<open>None\<close> prints as the word.\<close>

definition format_url :: "wiki \<Rightarrow> string" where
  "format_url w = (case url w of None \<Rightarrow> ''None'' | Some base \<Rightarrow> base)"

definition url_to :: "wiki \<Rightarrow> string \<Rightarrow> string option \<Rightarrow> (string \<times> query_value) list \<Rightarrow> string" where
  "url_to w page namespace params =
     (let page = py_replace CHR '' '' CHR ''_'' page;
          u = (case truthy_seq namespace of
                 Some namespace \<Rightarrow>
                   (let namespace = py_replace CHR '' '' CHR ''_'' namespace
                    in format_url w @ ''/wiki/'' @ namespace @ '':'' @ page)
               | None \<Rightarrow> format_url w @ ''/wiki/'' @ page);
          u = (if params \<noteq> [] then u @ (''?'' @ urlencode params) else u)
      in u)"

section \<open>The endpoint client\<close>

text \<open>\<open>self.url + "/api.php"\<close> raises \<open>TypeError\<close> when the url is \<open>None\<close>.\<close>

definition api :: "net \<Rightarrow> wiki \<Rightarrow> pydict option \<Rightarrow> pyval io" where
  "api net w params sent =
     (case url w of
        None \<Rightarrow> (Inl TypeError, sent)
      | Some base \<Rightarrow> session_get net \<lparr>req_url = base @ ''/api.php'', req_params = params\<rparr> sent)"

definition services :: "net \<Rightarrow> wiki \<Rightarrow> string \<Rightarrow> string \<Rightarrow> pydict option \<Rightarrow> pyval io" where
  "services net w service path params sent =
     session_get net
       \<lparr>req_url = ''https://services.fandom.com/'' @ service @ ''/'' @ wiki_id w @ ''/'' @ path,
        req_params = params\<rparr> sent"

definition query_nirvana :: "net \<Rightarrow> wiki \<Rightarrow> pydict \<Rightarrow> pyval io" where
  "query_nirvana net w params sent =
     (case truthy_seq (url w) of
        None \<Rightarrow> (Inl (RuntimeError ''Wiki url is required to do this''), sent)
      | Some base \<Rightarrow>
          (let params = setitem ''format'' (PStr ''json'') params
           in session_get net \<lparr>req_url = base @ ''/wikia.php'', req_params = Some params\<rparr> sent))"

section \<open>The recent-activity fetcher\<close>

text \<open>
  The parameter dictionary \<open>fetch_rc\<close> builds before it calls \<open>self.api\<close>.  The
  keyword argument \<open>before\<close> is written \<open>before_dt\<close> here and below.
\<close>

definition fetch_rc_params ::
  "int option \<Rightarrow> string list option \<Rightarrow> string list option \<Rightarrow> string list option
   \<Rightarrow> string list option \<Rightarrow> datetime option \<Rightarrow> datetime option \<Rightarrow> int list option \<Rightarrow> pydict" where
  "fetch_rc_params limit types show recent_changes_props logevents_props before_dt after namespaces =
     (let params = [(''action'', PStr ''query''),
                    (''list'', PStr ''recentchanges|logevents''),
                    (''format'', PStr ''json'')];
          params = if_stmt (truthy_int limit)
                     (\<lambda>limit params. setitem ''lelimit'' (PInt limit)
                                      (setitem ''rclimit'' (PInt limit) params)) params;
          params = if_stmt (truthy_seq types)
                     (\<lambda>types params. setitem ''rctype'' (PStr (py_join ''|'' types)) params) params;
          params = if_stmt (truthy_seq show)
                     (\<lambda>show params. setitem ''rcshow'' (PStr (py_join ''|'' show)) params) params;
          params = if_stmt (truthy_seq recent_changes_props)
                     (\<lambda>props params. setitem ''rcprop'' (PStr (py_join ''|'' props)) params) params;
          params = if_stmt (truthy_seq logevents_props)
                     (\<lambda>props params. setitem ''leprop'' (PStr (py_join ''|'' props)) params) params;
          params = if_stmt after
                     (\<lambda>after params. setitem ''leend'' (PStr (isoformat after @ ''Z''))
                                      (setitem ''rcend'' (PStr (isoformat after @ ''Z'')) params))
                     params;
          params = if_stmt before_dt
                     (\<lambda>before_dt params. setitem ''lestart'' (PStr (isoformat before_dt @ ''Z''))
                                      (setitem ''rcstart'' (PStr (isoformat before_dt @ ''Z'')) params))
                     params;
          params = if_stmt (truthy_seq namespaces)
                     (\<lambda>namespaces params.
                        setitem ''namespaces'' (PStr (py_join ''|'' (map str_of_int namespaces))) params)
                     params
      in params)"

definition fetch_rc ::
  "net \<Rightarrow> wiki \<Rightarrow> int option \<Rightarrow> string list option \<Rightarrow> string list option \<Rightarrow> string list option
   \<Rightarrow> string list option \<Rightarrow> datetime option \<Rightarrow> datetime option \<Rightarrow> int list option \<Rightarrow> pyval io" where
  "fetch_rc net w limit types show recent_changes_props logevents_props before_dt after namespaces sent =
     api net w
       (Some (fetch_rc_params limit types show recent_changes_props logevents_props
                before_dt after namespaces)) sent"

section \<open>The discussion fetcher\<close>

text \<open>The dictionary \<open>fetch_posts\<close> builds before it looks at the containers.\<close>

definition fetch_posts_params :: "int option \<Rightarrow> datetime option \<Rightarrow> datetime option \<Rightarrow> pydict" where
  "fetch_posts_params limit before_dt after =
     (let params = [];
          params = if_stmt (truthy_int limit)
                     (\<lambda>limit params. setitem ''limit'' (PInt limit) params) params;
          params = if_stmt before_dt
                     (\<lambda>before_dt params.
                        setitem ''until'' (PStr (drop_last3 (isoformat before_dt) @ ''Z'')) params)
                     params;
          params = if_stmt after
                     (\<lambda>after params.
                        setitem ''since'' (PStr (drop_last3 (isoformat after) @ ''Z'')) params)
                     params
      in params)"

text \<open>
  \<open>data[0]["_embedded"]["doc:posts"].extend(data[1]["_embedded"]["doc:posts"])\<close>:
  the target list and its \<open>extend\<close> attribute are looked up first, then the
  argument; the first response comes back with its post list extended.
\<close>

definition extend_posts :: "pyval \<Rightarrow> pyval \<Rightarrow> error + pyval" where
  "extend_posts d0 d1 =
     (case getitem d0 (KStr ''_embedded'') of
        Inl e \<Rightarrow> Inl e
      | Inr emb0 \<Rightarrow>
     (case getitem emb0 (KStr ''doc:posts'') of
        Inl e \<Rightarrow> Inl e
      | Inr posts0 \<Rightarrow>
     (case posts0 of
        PList xs \<Rightarrow>
          (case getitem d1 (KStr ''_embedded'') of
             Inl e \<Rightarrow> Inl e
           | Inr emb1 \<Rightarrow>
          (case getitem emb1 (KStr ''doc:posts'') of
             Inl e \<Rightarrow> Inl e
           | Inr posts1 \<Rightarrow>
          (case py_iter posts1 of
             Inl e \<Rightarrow> Inl e
           | Inr ys \<Rightarrow> Inr (store d0 ''_embedded'' (store emb0 ''doc:posts'' (PList (xs @ ys)))))))
      | _ \<Rightarrow> Inl AttributeError)))"

text \<open>The default value of \<open>containers\<close>.\<close>

definition default_containers :: "string list" where
  "default_containers = [''ARTICLE_COMMENT'', ''FORUM'', ''WALL'']"

text \<open>
  \<open>fetch_posts\<close>.  The keyword arguments of \<open>query_nirvana\<close> are \<open>controller\<close>,
  \<open>method\<close> and then the entries of \<open>params\<close>, whose keys are never one of the two.
  In the branch for two containers \<open>gather\<close> returns two responses, so \<open>data[0]\<close>
  and \<open>data[1]\<close> exist; \<open>data[0]\<close> is updated in place and the value returned is
  \<open>data\<close>, the list of both.
\<close>

definition fetch_posts ::
  "net \<Rightarrow> wiki \<Rightarrow> int option \<Rightarrow> string list \<Rightarrow> datetime option \<Rightarrow> datetime option \<Rightarrow> pyval io" where
  "fetch_posts net w limit containers before_dt after sent =
     (let params = fetch_posts_params limit before_dt after
      in if length containers \<noteq> 2
         then (if length containers = 1
               then (case getitem (PDict params) (KInt 0) of
                       Inl e \<Rightarrow> (Inl e, sent)
                     | Inr v \<Rightarrow>
                         query_nirvana net w
                           ([(''controller'', PStr ''DiscussionPost''), (''method'', PStr ''getPosts'')]
                            @ setitem ''containerType'' v params) sent)
               else query_nirvana net w
                      ([(''controller'', PStr ''DiscussionPost''), (''method'', PStr ''getPosts'')]
                       @ params) sent)
         else (let tasks = map (\<lambda>t. services net w ''discussion'' ''posts''
                                     (Some (dict_merge [(''containerType'', PStr t)] params)))
                             containers;
                   (data, sent') = gather tasks sent
               in (case data of
                     Inl e \<Rightarrow> (Inl e, sent')
                   | Inr ds \<Rightarrow>
                       (case extend_posts (ds ! 0) (ds ! 1) of
                          Inl e \<Rightarrow> (Inl e, sent')
                        | Inr d0 \<Rightarrow> (Inr (PList (d0 # tl ds)), sent')))))"

section \<open>Example values\<close>

definition example_wiki :: wiki where
  "example_wiki =
     \<lparr>url = Some ''https://a.fandom.com'', wiki_id = ''42'', last_check_time = None,
      transports = []\<rparr>"

definition unset_wiki :: wiki where
  "unset_wiki = \<lparr>url = None, wiki_id = ''42'', last_check_time = None, transports = []\<rparr>"

text \<open>A wiki whose base url has a space in it.\<close>

definition spaced_wiki :: wiki where
  "spaced_wiki =
     \<lparr>url = Some ''http://my wiki'', wiki_id = ''7'', last_check_time = None, transports = []\<rparr>"

text \<open>A remote side that answers every request with an empty object.\<close>

definition empty_net :: net where
  "empty_net sent r = Some (PDict [])"

text \<open>
  A remote side with two posts on the forum and one on the message wall; it
  tells the two requests apart by their parameters.
\<close>

definition forum_wall_net :: net where
  "forum_wall_net sent r =
     (if req_params r = Some [(''containerType'', PStr ''FORUM'')]
      then Some (PDict [(''_embedded'',
                   PDict [(''doc:posts'', PList [PStr ''f1'', PStr ''f2''])])])
      else Some (PDict [(''_embedded'', PDict [(''doc:posts'', PList [PStr ''w1''])])]))"

text \<open>\<open>datetime(2023, 1, 1, 0, 0, 59)\<close> and \<open>datetime(2023, 1, 1, 0, 0, 0, 123456)\<close>.\<close>

definition whole_second :: datetime where
  "whole_second =
     \<lparr>year = 2023, month = 1, day = 1, hour = 0, minute = 0, second = 59, microsecond = 0\<rparr>"

definition with_micros :: datetime where
  "with_micros =
     \<lparr>year = 2023, month = 1, day = 1, hour = 0, minute = 0, second = 0, microsecond = 123456\<rparr>"

section \<open>Facts about dictionaries\<close>

lemma map_of_setitem:
  "map_of (setitem k v d) k' = (if k' = k then Some v else map_of d k')"
  by (simp add: setitem_def update_conv')

lemma map_of_if_stmt:
  "map_of (if_stmt c body d) k = (case c of None \<Rightarrow> map_of d k | Some v \<Rightarrow> map_of (body v d) k)"
  by (simp add: if_stmt_def split: option.splits)

lemma map_of_if_stmt_other:
  "(\<And>v d'. map_of (body v d') k = map_of d' k) \<Longrightarrow> map_of (if_stmt c body d) k = map_of d k"
  by (simp add: if_stmt_def split: option.splits)

section \<open>Facts about timestamps\<close>

lemma replicate_small:
  "replicate 1 c = [c]" "replicate 2 c = [c, c]" "replicate 3 c = [c, c, c]"
  by (simp_all add: numeral_eq_Suc)

lemma zero_pad_examples:
  "zero_pad 4 2023 = ''2023''" "zero_pad 2 (Suc 0) = ''01''" "zero_pad 2 0 = ''00''"
  "zero_pad 2 59 = ''59''" "zero_pad 3 0 = ''000''" "zero_pad 6 123456 = ''123456''"
  by (simp_all add: zero_pad_def str_of_nat.simps digit_char_def replicate_small)

lemma isoformat_whole_second: "isoformat whole_second = ''2023-01-01T00:00:59''"
  by (simp add: isoformat_def whole_second_def zero_pad_examples)

lemma iso_millis_whole_second: "iso_millis_spec whole_second = ''2023-01-01T00:00:59.000''"
  by (simp add: iso_millis_spec_def whole_second_def zero_pad_examples)

lemma isoformat_with_micros: "isoformat with_micros = ''2023-01-01T00:00:00.123456''"
  by (simp add: isoformat_def with_micros_def zero_pad_examples)

lemma drop_last3_snoc3: "drop_last3 (xs @ [a, b, c]) = xs"
  by (simp add: drop_last3_def)

text \<open>One more column of padding is one more digit in front of the last one.\<close>

lemma zero_pad_Suc:
  "0 < w \<Longrightarrow> zero_pad (Suc w) n = zero_pad w (n div 10) @ [digit_char (n mod 10)]"
proof (cases "n < 10")
  case True
  assume w: "0 < w"
  from True have n: "str_of_nat n = [digit_char n]" "n div 10 = 0" "n mod 10 = n"
    by (simp_all add: str_of_nat.simps)
  have z: "str_of_nat 0 = ''0''" by (simp add: str_of_nat.simps digit_char_def)
  from w obtain v where v: "w = Suc v" by (cases w) auto
  show ?thesis
    by (simp add: zero_pad_def n z v replicate_append_same)
next
  case False
  then have "str_of_nat n = str_of_nat (n div 10) @ [digit_char (n mod 10)]"
    by (subst str_of_nat.simps) simp
  then show ?thesis by (simp add: zero_pad_def)
qed

lemma zero_pad_6:
  "zero_pad 6 n = zero_pad 3 (n div 1000)
     @ [digit_char (n div 100 mod 10), digit_char (n div 10 mod 10), digit_char (n mod 10)]"
proof -
  have a: "zero_pad 6 n = zero_pad 5 (n div 10) @ [digit_char (n mod 10)]"
    using zero_pad_Suc [of 5 n] by simp
  have d: "n div 10 div 10 = n div 100" "n div 100 div 10 = n div 1000"
    by (simp_all add: div_mult2_eq [symmetric])
  have b: "zero_pad 5 (n div 10) = zero_pad 4 (n div 100) @ [digit_char (n div 10 mod 10)]"
    using zero_pad_Suc [of 4 "n div 10"] by (simp add: d)
  have c: "zero_pad 4 (n div 100) = zero_pad 3 (n div 1000) @ [digit_char (n div 100 mod 10)]"
    using zero_pad_Suc [of 3 "n div 100"] by (simp add: d)
  show ?thesis by (simp add: a b c)
qed

text \<open>
  With a microsecond field that is not zero, cutting three characters off
  \<open>isoformat()\<close> is the truncation to milliseconds.
\<close>

lemma posts_timestamp_millis:
  "microsecond d \<noteq> 0 \<Longrightarrow> drop_last3 (isoformat d) = iso_millis_spec d"
proof -
  assume "microsecond d \<noteq> 0"
  then have "isoformat d = iso_millis_spec d
     @ [digit_char (microsecond d div 100 mod 10), digit_char (microsecond d div 10 mod 10),
        digit_char (microsecond d mod 10)]"
    by (simp add: isoformat_def iso_millis_spec_def zero_pad_6)
  then show ?thesis by (simp only: drop_last3_snoc3)
qed

section \<open>Facts about URL encoding\<close>

lemma of_char_div_16: "(of_char b :: nat) div 16 < 16"
proof -
  have "(of_char b :: nat) mod 256 = of_char b" by (rule of_char_mod_256)
  then have "(of_char b :: nat) < 256" by (metis mod_less_divisor zero_less_numeral)
  then show ?thesis by arith
qed

lemma hex_digit_not_space: "n < 16 \<Longrightarrow> hex_digit n \<noteq> CHR '' ''"
proof -
  assume "n < 16"
  then have "hex_digit n \<in> set ''0123456789ABCDEF''"
    unfolding hex_digit_def by (intro nth_mem) simp
  then show ?thesis by auto
qed

lemma space_in_byte_quoter:
  "CHR '' '' \<in> set (byte_quoter safe b) \<Longrightarrow> CHR '' '' \<in> set safe"
  using hex_digit_not_space [OF of_char_div_16, of b]
        hex_digit_not_space [of "(of_char b :: nat) mod 16"]
  by (auto simp: byte_quoter_def always_safe_def split: if_splits)

lemma space_in_quote: "CHR '' '' \<in> set (quote s safe) \<Longrightarrow> CHR '' '' \<in> set safe"
  by (auto simp: quote_def dest: space_in_byte_quoter)

lemma space_notin_quote_plus: "CHR '' '' \<notin> set (quote_plus s)"
  by (auto simp: quote_plus_def py_replace_def dest: space_in_quote)

lemma set_py_join: "set (py_join sep xs) \<subseteq> set sep \<union> (\<Union>x\<in>set xs. set x)"
  by (induction sep xs rule: py_join.induct) auto

lemma space_notin_urlencode: "CHR '' '' \<notin> set (urlencode query)"
proof
  assume "CHR '' '' \<in> set (urlencode query)"
  then have "CHR '' '' \<in> set ''&''
      \<union> (\<Union>x\<in>set (map (\<lambda>kv. quote_plus (fst kv) @ ''='' @ quote_plus (query_str (snd kv))) query).
           set x)"
    unfolding urlencode_def using set_py_join by blast
  then show False by (auto simp: space_notin_quote_plus split: if_splits)
qed

section \<open>Facts about the discussion fetcher\<close>

lemma fetch_posts_params_no_container:
  "map_of (fetch_posts_params limit before_dt after) ''containerType'' = None"
  by (simp add: fetch_posts_params_def Let_def map_of_setitem map_of_if_stmt split: option.splits)

text \<open>
  Two containers, both responses carrying a post list: what \<open>fetch_posts\<close> sends
  and what it returns.
\<close>

lemma fetch_posts_two_containers:
  assumes r0: "r0 = \<lparr>req_url = ''https://services.fandom.com/discussion/'' @ wiki_id w @ ''/posts'',
                     req_params = Some (dict_merge [(''containerType'', PStr c0)]
                                          (fetch_posts_params limit before_dt after))\<rparr>"
    and r1: "r1 = \<lparr>req_url = ''https://services.fandom.com/discussion/'' @ wiki_id w @ ''/posts'',
                   req_params = Some (dict_merge [(''containerType'', PStr c1)]
                                        (fetch_posts_params limit before_dt after))\<rparr>"
    and n0: "net sent r0 = Some (PDict e0)"
    and n1: "net (sent @ [r0]) r1 = Some (PDict e1)"
    and e0: "map_of e0 ''_embedded'' = Some (PDict m0)"
    and m0: "map_of m0 ''doc:posts'' = Some (PList xs)"
    and e1: "map_of e1 ''_embedded'' = Some (PDict m1)"
    and m1: "map_of m1 ''doc:posts'' = Some (PList ys)"
  shows "fetch_posts net w limit [c0, c1] before_dt after sent
           = (Inr (PList [PDict (setitem ''_embedded''
                                   (PDict (setitem ''doc:posts'' (PList (xs @ ys)) m0)) e0),
                          PDict e1]),
              sent @ [r0, r1])"
proof -
  have s0: "services net w ''discussion'' ''posts''
              (Some (dict_merge [(''containerType'', PStr c0)]
                       (fetch_posts_params limit before_dt after))) sent
              = (Inr (PDict e0), sent @ [r0])"
    using n0 by (simp add: services_def session_get_def r0)
  have s1: "services net w ''discussion'' ''posts''
              (Some (dict_merge [(''containerType'', PStr c1)]
                       (fetch_posts_params limit before_dt after))) (sent @ [r0])
              = (Inr (PDict e1), sent @ [r0, r1])"
    using n1 by (simp add: services_def session_get_def r1)
  have x: "extend_posts (PDict e0) (PDict e1)
             = Inr (PDict (setitem ''_embedded''
                             (PDict (setitem ''doc:posts'' (PList (xs @ ys)) m0)) e0))"
    by (simp add: extend_posts_def getitem_def py_iter_def store_def e0 m0 e1 m1)
  show ?thesis
    by (simp add: fetch_posts_def Let_def s0 s1 x)
qed

section \<open>The discussion fetcher: dispatch on the containers\<close>

text \<open>
  C1 (the code does not do this): with exactly one container, \<open>fetch_posts\<close>
  evaluates \<open>params[0]\<close> on its own parameter dictionary, which raises
  \<open>KeyError\<close>; it returns the error and sends no request, so the single call
  filtered by that container is never issued.
\<close>

theorem fetch_posts_single_container_raises:
  "fetch_posts net w limit [c] before_dt after sent = (Inl KeyError, sent)"
  by (simp add: fetch_posts_def getitem_def)

text \<open>
  C2 (the code does not do this): with the containers \<open>FORUM\<close> and \<open>WALL\<close>,
  \<open>fetch_posts\<close> sends one services request per container, in that order, and
  appends the second post list to the first; but what it returns is the list
  of both responses, not the merged first response.
\<close>

theorem fetch_posts_two_containers_returns_list:
  "fetch_posts forum_wall_net example_wiki None [''FORUM'', ''WALL''] None None []
     = (Inr (PList
               [PDict [(''_embedded'',
                  PDict [(''doc:posts'', PList [PStr ''f1'', PStr ''f2'', PStr ''w1''])])],
                PDict [(''_embedded'', PDict [(''doc:posts'', PList [PStr ''w1''])])]]),
        [\<lparr>req_url = ''https://services.fandom.com/discussion/42/posts'',
          req_params = Some [(''containerType'', PStr ''FORUM'')]\<rparr>,
         \<lparr>req_url = ''https://services.fandom.com/discussion/42/posts'',
          req_params = Some [(''containerType'', PStr ''WALL'')]\<rparr>])
   \<and> fst (fetch_posts forum_wall_net example_wiki None [''FORUM'', ''WALL''] None None [])
       \<noteq> Inr (PDict [(''_embedded'',
                  PDict [(''doc:posts'', PList [PStr ''f1'', PStr ''f2'', PStr ''w1''])])])"
  by (simp add: fetch_posts_def fetch_posts_params_def if_stmt_def truthy_int_def Let_def
        dict_merge_def services_def session_get_def forum_wall_net_def example_wiki_def
        extend_posts_def getitem_def py_iter_def store_def setitem_def)

text \<open>
  C3: when the number of containers is neither one nor two (the default three
  among them), \<open>fetch_posts\<close> is exactly one call of \<open>query_nirvana\<close> with
  \<open>controller=DiscussionPost\<close>, \<open>method=getPosts\<close> and the common parameters.  With a
  base url it sends one request, to \<open>wikia.php\<close>, with those two parameters and no
  \<open>containerType\<close>; without one it sends nothing.  No services request is sent.
\<close>

theorem fetch_posts_unfiltered_single_call:
  "length containers \<noteq> 1 \<Longrightarrow> length containers \<noteq> 2 \<Longrightarrow>
   fetch_posts net w limit containers before_dt after sent
     = query_nirvana net w
         ([(''controller'', PStr ''DiscussionPost''), (''method'', PStr ''getPosts'')]
          @ fetch_posts_params limit before_dt after) sent
   \<and> (url w = Some base \<and> base \<noteq> [] \<longrightarrow>
        (\<exists>ps. ps = setitem ''format'' (PStr ''json'')
                      ([(''controller'', PStr ''DiscussionPost''), (''method'', PStr ''getPosts'')]
                       @ fetch_posts_params limit before_dt after)
              \<and> snd (fetch_posts net w limit containers before_dt after sent)
                  = sent @ [\<lparr>req_url = base @ ''/wikia.php'', req_params = Some ps\<rparr>]
              \<and> map_of ps ''controller'' = Some (PStr ''DiscussionPost'')
              \<and> map_of ps ''method'' = Some (PStr ''getPosts'')
              \<and> map_of ps ''containerType'' = None))
   \<and> (url w = None \<or> url w = Some [] \<longrightarrow>
        snd (fetch_posts net w limit containers before_dt after sent) = sent)"
  by (auto simp: fetch_posts_def query_nirvana_def truthy_seq_def session_get_def Let_def
        map_of_setitem fetch_posts_params_no_container)

theorem fetch_posts_unfiltered_single_call_witness:
  "length default_containers \<noteq> 1 \<and> length default_containers \<noteq> 2
   \<and> url example_wiki = Some ''https://a.fandom.com''
   \<and> snd (fetch_posts empty_net example_wiki (Some 5) default_containers None None [])
       = [\<lparr>req_url = ''https://a.fandom.com/wikia.php'',
            req_params = Some [(''controller'', PStr ''DiscussionPost''),
                               (''method'', PStr ''getPosts''),
                               (''limit'', PInt 5),
                               (''format'', PStr ''json'')]\<rparr>]"
proof -
  have h1: "length default_containers \<noteq> 1" and h2: "length default_containers \<noteq> 2"
    by (simp_all add: default_containers_def)
  from fetch_posts_unfiltered_single_call
         [OF h1 h2, where net = empty_net and w = example_wiki and limit = "Some 5"
            and before_dt = None and after = None and sent = "[]"
            and base = "''https://a.fandom.com''"]
  have "fetch_posts empty_net example_wiki (Some 5) default_containers None None []
     = query_nirvana empty_net example_wiki
         ([(''controller'', PStr ''DiscussionPost''), (''method'', PStr ''getPosts'')]
          @ fetch_posts_params (Some 5) None None) []"
    by simp
  then show ?thesis using h1 h2
    by (simp add: query_nirvana_def example_wiki_def truthy_seq_def session_get_def
          fetch_posts_params_def if_stmt_def truthy_int_def setitem_def Let_def)
qed

section \<open>The discussion fetcher: timestamps\<close>

text \<open>
  C4 (the code does not do this for every datetime): for
  \<open>before = datetime(2023, 1, 1, 0, 0, 59)\<close>, whose microsecond field is zero,
  \<open>isoformat()\<close> has no fraction, the last three characters cut off are the
  seconds, and the \<open>until\<close> parameter sent is \<open>2023-01-01T00:00Z\<close>; the form
  truncated to milliseconds is \<open>2023-01-01T00:00:59.000\<close>.
\<close>

theorem fetch_posts_until_loses_seconds:
  "snd (fetch_posts net example_wiki None default_containers (Some whole_second) None [])
     = [\<lparr>req_url = ''https://a.fandom.com/wikia.php'',
          req_params = Some [(''controller'', PStr ''DiscussionPost''),
                             (''method'', PStr ''getPosts''),
                             (''until'', PStr ''2023-01-01T00:00Z''),
                             (''format'', PStr ''json'')]\<rparr>]
   \<and> iso_millis_spec whole_second @ ''Z'' = ''2023-01-01T00:00:59.000Z''"
  by (simp add: fetch_posts_def fetch_posts_params_def if_stmt_def truthy_int_def Let_def
        default_containers_def query_nirvana_def truthy_seq_def example_wiki_def
        session_get_def setitem_def isoformat_whole_second iso_millis_whole_second drop_last3_def)

section \<open>The recent-activity fetcher\<close>

text \<open>
  C5: \<open>fetch_rc\<close> passes its parameter dictionary to \<open>self.api\<close>, which sends it to
  \<open>api.php\<close>; in it a \<open>before\<close> timestamp is under both \<open>rcstart\<close> and \<open>lestart\<close>
  and an \<open>after\<close> timestamp under both \<open>rcend\<close> and \<open>leend\<close>, each as
  \<open>isoformat()\<close> followed by the letter \<open>Z\<close>.
\<close>

theorem fetch_rc_time_bounds:
  "fetch_rc net w limit types rcshow recent_changes_props logevents_props before_dt after namespaces sent
     = api net w (Some (fetch_rc_params limit types rcshow recent_changes_props logevents_props
                          before_dt after namespaces)) sent
   \<and> (url w = Some base \<longrightarrow>
        snd (fetch_rc net w limit types rcshow recent_changes_props logevents_props
               before_dt after namespaces sent)
          = sent @ [\<lparr>req_url = base @ ''/api.php'',
                      req_params = Some (fetch_rc_params limit types rcshow recent_changes_props
                                           logevents_props before_dt after namespaces)\<rparr>])
   \<and> (before_dt = Some b \<longrightarrow>
        map_of (fetch_rc_params limit types rcshow recent_changes_props logevents_props
                  before_dt after namespaces) ''rcstart'' = Some (PStr (isoformat b @ ''Z''))
        \<and> map_of (fetch_rc_params limit types rcshow recent_changes_props logevents_props
                  before_dt after namespaces) ''lestart'' = Some (PStr (isoformat b @ ''Z'')))
   \<and> (after = Some a \<longrightarrow>
        map_of (fetch_rc_params limit types rcshow recent_changes_props logevents_props
                  before_dt after namespaces) ''rcend'' = Some (PStr (isoformat a @ ''Z''))
        \<and> map_of (fetch_rc_params limit types rcshow recent_changes_props logevents_props
                  before_dt after namespaces) ''leend'' = Some (PStr (isoformat a @ ''Z'')))"
  by (simp add: fetch_rc_def api_def session_get_def fetch_rc_params_def Let_def
        map_of_setitem map_of_if_stmt split: option.splits)

theorem fetch_rc_time_bounds_witness:
  "url example_wiki = Some ''https://a.fandom.com''
   \<and> snd (fetch_rc empty_net example_wiki None None None None None
             (Some with_micros) (Some whole_second) None [])
       = [\<lparr>req_url = ''https://a.fandom.com/api.php'',
            req_params = Some (fetch_rc_params None None None None None
                                 (Some with_micros) (Some whole_second) None)\<rparr>]
   \<and> map_of (fetch_rc_params None None None None None (Some with_micros) (Some whole_second) None)
        ''rcstart'' = Some (PStr ''2023-01-01T00:00:00.123456Z'')
   \<and> map_of (fetch_rc_params None None None None None (Some with_micros) (Some whole_second) None)
        ''lestart'' = Some (PStr ''2023-01-01T00:00:00.123456Z'')
   \<and> map_of (fetch_rc_params None None None None None (Some with_micros) (Some whole_second) None)
        ''rcend'' = Some (PStr ''2023-01-01T00:00:59Z'')
   \<and> map_of (fetch_rc_params None None None None None (Some with_micros) (Some whole_second) None)
        ''leend'' = Some (PStr ''2023-01-01T00:00:59Z'')"
proof -
  have u: "url example_wiki = Some ''https://a.fandom.com''"
    by (simp add: example_wiki_def)
  from u fetch_rc_time_bounds
          [where net = empty_net and w = example_wiki and limit = None and types = None
             and rcshow = None and recent_changes_props = None and logevents_props = None
             and before_dt = "Some with_micros" and after = "Some whole_second"
             and namespaces = None and sent = "[]" and base = "''https://a.fandom.com''"
             and b = with_micros and a = whole_second, THEN conjunct2]
  show ?thesis
    by (simp add: isoformat_whole_second isoformat_with_micros)
qed

section \<open>The endpoint client\<close>

text \<open>
  C6: \<open>query_nirvana\<close> raises (a \<open>RuntimeError\<close>, the specification's
  configuration error) and sends nothing when the wiki's url is \<open>None\<close> or
  empty; with a url it sends one request to \<open>wikia.php\<close> whose \<open>format\<close> parameter
  is \<open>json\<close>, whatever the caller passed under that key.
\<close>

theorem query_nirvana_url_and_format:
  "(url w = None \<or> url w = Some [] \<longrightarrow>
      query_nirvana net w params sent
        = (Inl (RuntimeError ''Wiki url is required to do this''), sent))
   \<and> (url w = Some base \<and> base \<noteq> [] \<longrightarrow>
        (\<exists>ps. ps = setitem ''format'' (PStr ''json'') params
              \<and> snd (query_nirvana net w params sent)
                  = sent @ [\<lparr>req_url = base @ ''/wikia.php'', req_params = Some ps\<rparr>]
              \<and> map_of ps ''format'' = Some (PStr ''json'')))"
  by (auto simp: query_nirvana_def truthy_seq_def session_get_def Let_def map_of_setitem)

theorem query_nirvana_url_and_format_witness:
  "url unset_wiki = None
   \<and> query_nirvana empty_net unset_wiki [(''format'', PStr ''xml'')] []
       = (Inl (RuntimeError ''Wiki url is required to do this''), [])
   \<and> url example_wiki = Some ''https://a.fandom.com''
   \<and> snd (query_nirvana empty_net example_wiki [(''format'', PStr ''xml'')] [])
       = [\<lparr>req_url = ''https://a.fandom.com/wikia.php'',
            req_params = Some [(''format'', PStr ''json'')]\<rparr>]"
  using query_nirvana_url_and_format
          [where w = unset_wiki and net = empty_net and params = "[(''format'', PStr ''xml'')]"
             and sent = "[]"]
        query_nirvana_url_and_format
          [where w = example_wiki and base = "''https://a.fandom.com''" and net = empty_net
             and params = "[(''format'', PStr ''xml'')]" and sent = "[]"]
  by (simp add: unset_wiki_def example_wiki_def query_nirvana_def truthy_seq_def
        session_get_def setitem_def Let_def)

section \<open>Transport registration\<close>

text \<open>
  C7: every type string other than \<open>"discord"\<close> makes \<open>add_transport\<close> raise
  \<open>InvalidTransportType\<close> at the call itself; \<open>"discord"\<close> is registered without
  error, the new transport appended to the wiki's list.
\<close>

theorem add_transport_type_check:
  "(type \<noteq> ''discord'' \<longrightarrow> fst (add_transport w type target) = Inl InvalidTransportType)
   \<and> (type = ''discord'' \<longrightarrow>
        fst (add_transport w type target) = Inr ()
        \<and> transports (snd (add_transport w type target))
            = transports w @ [DiscordTransport w target])"
  by (simp add: add_transport_def)

theorem add_transport_type_check_witness:
  "fst (add_transport example_wiki ''slack'' ''https://hook'') = Inl InvalidTransportType
   \<and> fst (add_transport example_wiki ''discord'' ''https://hook'') = Inr ()
   \<and> transports (snd (add_transport example_wiki ''discord'' ''https://hook''))
       = [\<lparr>t_wiki = ''42'', t_url = ''https://hook''\<rparr>]"
  using add_transport_type_check
          [where type = "''slack''" and w = example_wiki and target = "''https://hook''"]
        add_transport_type_check
          [where type = "''discord''" and w = example_wiki and target = "''https://hook''"]
  by (simp add: DiscordTransport_def example_wiki_def)

section \<open>Page URLs\<close>

text \<open>
  C8, as stated, fails on two inputs: an empty-string namespace is given but
  not prefixed, and a space in the wiki's base url stays in the result.
\<close>

theorem url_to_counterexample:
  "url_to example_wiki ''Main Page'' (Some '''') [] = ''https://a.fandom.com/wiki/Main_Page''
   \<and> CHR '' '' \<in> set (url_to spaced_wiki ''Main Page'' None [])"
  by (simp add: url_to_def truthy_seq_def Let_def format_url_def example_wiki_def
        spaced_wiki_def py_replace_def)

text \<open>
  C8, amended: \<open>url_to\<close> returns the base url, \<open>/wiki/\<close>, the namespace with
  spaces replaced by underscores and a colon when a non-empty namespace is
  given, the page with spaces replaced by underscores, and a question mark with
  the encoded query string exactly when there are parameters.  What follows
  the base url has no space, so the result has none when the base url has none.
\<close>

theorem url_to_shape:
  "url_to w page namespace params =
     format_url w @ ''/wiki/''
     @ (case namespace of
          None \<Rightarrow> []
        | Some ns \<Rightarrow> if ns = [] then [] else py_replace CHR '' '' CHR ''_'' ns @ '':'')
     @ py_replace CHR '' '' CHR ''_'' page
     @ (if params = [] then [] else ''?'' @ urlencode params)
   \<and> CHR '' '' \<notin> set (drop (length (format_url w)) (url_to w page namespace params))
   \<and> (CHR '' '' \<notin> set (format_url w) \<longrightarrow> CHR '' '' \<notin> set (url_to w page namespace params))"
proof -
  define rest where "rest =
     ''/wiki/''
     @ (case namespace of
          None \<Rightarrow> []
        | Some ns \<Rightarrow> if ns = [] then [] else py_replace CHR '' '' CHR ''_'' ns @ '':'')
     @ py_replace CHR '' '' CHR ''_'' page
     @ (if params = [] then [] else ''?'' @ urlencode params)"
  have shape: "url_to w page namespace params = format_url w @ rest"
    by (simp add: rest_def url_to_def truthy_seq_def Let_def split: option.splits)
  have rep: "CHR '' '' \<notin> set (py_replace CHR '' '' CHR ''_'' s)" for s
    by (auto simp: py_replace_def)
  have nospace: "CHR '' '' \<notin> set rest"
    by (simp add: rest_def rep space_notin_urlencode split: option.splits)
  have c1: "url_to w page namespace params =
     format_url w @ ''/wiki/''
     @ (case namespace of
          None \<Rightarrow> []
        | Some ns \<Rightarrow> if ns = [] then [] else py_replace CHR '' '' CHR ''_'' ns @ '':'')
     @ py_replace CHR '' '' CHR ''_'' page
     @ (if params = [] then [] else ''?'' @ urlencode params)"
    using shape by (simp add: rest_def)
  have c2: "CHR '' '' \<notin> set (drop (length (format_url w)) (url_to w page namespace params))"
    using nospace by (simp add: shape)
  have c3: "CHR '' '' \<notin> set (format_url w)
              \<longrightarrow> CHR '' '' \<notin> set (url_to w page namespace params)"
    using nospace by (simp add: shape)
  from c1 c2 c3 show ?thesis by blast
qed

theorem url_to_shape_witness:
  "CHR '' '' \<notin> set (format_url example_wiki)
   \<and> url_to example_wiki ''Main Page'' (Some ''User talk'') [(''action'', QStr ''edit me'')]
       = ''https://a.fandom.com/wiki/User_talk:Main_Page?action=edit+me''
   \<and> CHR '' '' \<notin> set (url_to example_wiki ''Main Page'' (Some ''User talk'')
                          [(''action'', QStr ''edit me'')])"
proof -
  have f: "format_url example_wiki = ''https://a.fandom.com''"
    by (simp add: format_url_def example_wiki_def)
  have q: "urlencode [(''action'', QStr ''edit me'')] = ''action=edit+me''"
    by (simp add: urlencode_def quote_plus_def quote_def byte_quoter_def always_safe_def
          query_str_def py_replace_def)
  from url_to_shape
         [where w = example_wiki and page = "''Main Page''" and namespace = "Some ''User talk''"
            and params = "[(''action'', QStr ''edit me'')]"]
  show ?thesis
    by (simp add: f q py_replace_def)
qed

section \<open>The recent-activity fetcher: the limit\<close>

text \<open>
  C9, as stated, fails for the limit \<open>0\<close>: it is supplied, tests false, and
  the request carries neither \<open>rclimit\<close> nor \<open>lelimit\<close>.
\<close>

theorem fetch_rc_limit_zero_counterexample:
  "snd (fetch_rc empty_net example_wiki (Some 0) None None None None None None None [])
     = [\<lparr>req_url = ''https://a.fandom.com/api.php'',
          req_params = Some [(''action'', PStr ''query''),
                             (''list'', PStr ''recentchanges|logevents''),
                             (''format'', PStr ''json'')]\<rparr>]"
  by (simp add: fetch_rc_def api_def session_get_def example_wiki_def fetch_rc_params_def
        Let_def if_stmt_def truthy_int_def truthy_seq_def)

text \<open>
  C9, amended: the dictionary \<open>fetch_rc\<close> sends has \<open>rclimit\<close> and \<open>lelimit\<close>, both
  set to the limit, when a limit other than \<open>0\<close> is supplied, and has neither
  key when the limit is absent or \<open>0\<close>.
\<close>

theorem fetch_rc_limit:
  "(url w = Some base \<longrightarrow>
        snd (fetch_rc net w limit types rcshow recent_changes_props logevents_props
               before_dt after namespaces sent)
          = sent @ [\<lparr>req_url = base @ ''/api.php'',
                      req_params = Some (fetch_rc_params limit types rcshow recent_changes_props
                                           logevents_props before_dt after namespaces)\<rparr>])
   \<and> (limit = Some n \<and> n \<noteq> 0 \<longrightarrow>
        map_of (fetch_rc_params limit types rcshow recent_changes_props logevents_props
                  before_dt after namespaces) ''rclimit'' = Some (PInt n)
        \<and> map_of (fetch_rc_params limit types rcshow recent_changes_props logevents_props
                  before_dt after namespaces) ''lelimit'' = Some (PInt n))
   \<and> (limit = None \<or> limit = Some 0 \<longrightarrow>
        map_of (fetch_rc_params limit types rcshow recent_changes_props logevents_props
                  before_dt after namespaces) ''rclimit'' = None
        \<and> map_of (fetch_rc_params limit types rcshow recent_changes_props logevents_props
                  before_dt after namespaces) ''lelimit'' = None)"
proof -
  have req: "url w = Some base \<longrightarrow>
        snd (fetch_rc net w limit types rcshow recent_changes_props logevents_props
               before_dt after namespaces sent)
          = sent @ [\<lparr>req_url = base @ ''/api.php'',
                      req_params = Some (fetch_rc_params limit types rcshow recent_changes_props
                                           logevents_props before_dt after namespaces)\<rparr>]"
    by (simp add: fetch_rc_def api_def session_get_def)
  have pos: "limit = Some n \<and> n \<noteq> 0 \<longrightarrow>
        map_of (fetch_rc_params limit types rcshow recent_changes_props logevents_props
                  before_dt after namespaces) ''rclimit'' = Some (PInt n)
        \<and> map_of (fetch_rc_params limit types rcshow recent_changes_props logevents_props
                  before_dt after namespaces) ''lelimit'' = Some (PInt n)"
    by (simp add: fetch_rc_params_def Let_def map_of_setitem map_of_if_stmt_other)
       (simp add: map_of_if_stmt map_of_setitem truthy_int_def)
  have neg: "limit = None \<or> limit = Some 0 \<longrightarrow>
        map_of (fetch_rc_params limit types rcshow recent_changes_props logevents_props
                  before_dt after namespaces) ''rclimit'' = None
        \<and> map_of (fetch_rc_params limit types rcshow recent_changes_props logevents_props
                  before_dt after namespaces) ''lelimit'' = None"
  proof (cases limit)
    case None
    then show ?thesis
      by (simp add: fetch_rc_params_def Let_def map_of_setitem map_of_if_stmt_other)
         (simp add: map_of_if_stmt map_of_setitem truthy_int_def)
  next
    case (Some m)
    then show ?thesis
      by (simp add: fetch_rc_params_def Let_def map_of_setitem map_of_if_stmt_other)
         (simp add: map_of_if_stmt map_of_setitem truthy_int_def)
  qed
  from req pos neg show ?thesis by blast
qed

theorem fetch_rc_limit_witness:
  "url example_wiki = Some ''https://a.fandom.com''
   \<and> snd (fetch_rc empty_net example_wiki (Some 25) None None None None None None None [])
       = [\<lparr>req_url = ''https://a.fandom.com/api.php'',
            req_params = Some (fetch_rc_params (Some 25) None None None None None None None)\<rparr>]
   \<and> map_of (fetch_rc_params (Some 25) None None None None None None None) ''rclimit''
       = Some (PInt 25)
   \<and> map_of (fetch_rc_params (Some 25) None None None None None None None) ''lelimit''
       = Some (PInt 25)
   \<and> map_of (fetch_rc_params None None None None None None None None) ''rclimit'' = None
   \<and> map_of (fetch_rc_params None None None None None None None None) ''lelimit'' = None"
proof -
  have u: "url example_wiki = Some ''https://a.fandom.com''"
    by (simp add: example_wiki_def)
  from u fetch_rc_limit
         [where net = empty_net and w = example_wiki and limit = "Some 25" and types = None
            and rcshow = None and recent_changes_props = None and logevents_props = None
            and before_dt = None and after = None and namespaces = None and sent = "[]"
            and base = "''https://a.fandom.com''" and n = 25]
       fetch_rc_limit
         [where net = empty_net and w = example_wiki and limit = None and types = None
            and rcshow = None and recent_changes_props = None and logevents_props = None
            and before_dt = None and after = None and namespaces = None and sent = "[]"
            and base = "''https://a.fandom.com''" and n = 25]
  show ?thesis by simp
qed

section \<open>Transport registration: failure\<close>

text \<open>
  C10: when \<open>add_transport\<close> raises \<open>InvalidTransportType\<close>, the wiki's
  transports list is the one it had before the call.
\<close>

theorem add_transport_failure_keeps_transports:
  "fst (add_transport w type target) = Inl InvalidTransportType
   \<Longrightarrow> transports (snd (add_transport w type target)) = transports w"
  by (simp add: add_transport_def split: if_splits)

theorem add_transport_failure_keeps_transports_witness:
  "fst (add_transport
          (example_wiki\<lparr>transports := [\<lparr>t_wiki = ''42'', t_url = ''https://old''\<rparr>]\<rparr>)
          ''irc'' ''https://hook'')
     = Inl InvalidTransportType
   \<and> transports (snd (add_transport
          (example_wiki\<lparr>transports := [\<lparr>t_wiki = ''42'', t_url = ''https://old''\<rparr>]\<rparr>)
          ''irc'' ''https://hook''))
     = [\<lparr>t_wiki = ''42'', t_url = ''https://old''\<rparr>]"
proof -
  have h: "fst (add_transport
          (example_wiki\<lparr>transports := [\<lparr>t_wiki = ''42'', t_url = ''https://old''\<rparr>]\<rparr>)
          ''irc'' ''https://hook'')
     = Inl InvalidTransportType"
    by (simp add: add_transport_def)
  from add_transport_failure_keeps_transports [OF h] h show ?thesis by simp
qed

end
